theory Spec2Isabelle
  imports Complex_Main
begin

section \<open>Python values, exceptions and string operations\<close>

text \<open>
  Exceptions are values. Every constructor stands for a subclass of Python's
  \<open>Exception\<close>, so each of them is caught by an \<open>except Exception\<close> clause.
  \<open>exn_msg\<close> is \<open>str(e)\<close>.
\<close>

datatype exn =
    TypeError string
  | KeyError string
  | ZeroDivisionError string
  | Exception string

fun exn_msg :: "exn \<Rightarrow> string" where
  "exn_msg (TypeError m) = m"
| "exn_msg (KeyError k) = CHR 0x27 # k @ [CHR 0x27]"
| "exn_msg (ZeroDivisionError m) = m"
| "exn_msg (Exception m) = m"

text \<open>
  The JSON-like values that travel through tool inputs and result dictionaries. A
  dictionary is an association list in insertion order with distinct keys; floats are
  idealised as exact rationals.
\<close>

datatype pyval =
    PNone
  | PBool bool
  | PInt int
  | PFloat rat
  | PStr string
  | PList "pyval list"
  | PDict "(string \<times> pyval) list"

type_synonym pydict = "(string \<times> pyval) list"

text \<open>\<open>d.get(k)\<close>: the value stored under \<open>k\<close>, or \<open>None\<close>.\<close>

definition dict_get :: "pydict \<Rightarrow> string \<Rightarrow> pyval" where
  "dict_get d k = (case map_of d k of None \<Rightarrow> PNone | Some v \<Rightarrow> v)"

text \<open>\<open>d.get(k, default)\<close>.\<close>

definition dict_get_default :: "pydict \<Rightarrow> string \<Rightarrow> pyval \<Rightarrow> pyval" where
  "dict_get_default d k dflt = (case map_of d k of None \<Rightarrow> dflt | Some v \<Rightarrow> v)"

text \<open>
  \<open>v[:100]\<close>: strings and lists can be sliced; every other value raises
  \<open>TypeError\<close>.
\<close>

fun slice100 :: "pyval \<Rightarrow> exn + pyval" where
  "slice100 (PStr s) = Inr (PStr (take 100 s))"
| "slice100 (PList xs) = Inr (PList (take 100 xs))"
| "slice100 v = Inl (TypeError ''object is not subscriptable'')"

definition startswith :: "string \<Rightarrow> string \<Rightarrow> bool" where
  "startswith s p = (take (length p) s = p)"

definition endswith :: "string \<Rightarrow> string \<Rightarrow> bool" where
  "endswith s p = (length p \<le> length s \<and> drop (length s - length p) s = p)"

text \<open>
  \<open>s.replace(old, new)\<close> for a non-empty \<open>old\<close>: every occurrence, scanning from the
  left, without overlaps.
\<close>

function replace_ne :: "string \<Rightarrow> string \<Rightarrow> string \<Rightarrow> string" where
  "replace_ne old new [] = []"
| "replace_ne old new (c # cs) =
     (if old \<noteq> [] \<and> take (length old) (c # cs) = old
      then new @ replace_ne old new (drop (length old) (c # cs))
      else c # replace_ne old new cs)"
  by pat_completeness auto
termination
  by (relation "measure (\<lambda>(old, new, s). length s)") (auto simp: Suc_diff_le)

text \<open>An empty \<open>old\<close> puts \<open>new\<close> before every character and at the end.\<close>

definition py_replace :: "string \<Rightarrow> string \<Rightarrow> string \<Rightarrow> string" where
  "py_replace s old new =
     (if old = [] then new @ concat (map (\<lambda>c. c # new) s) else replace_ne old new s)"

text \<open>\<open>sep.join(parts)\<close>.\<close>

fun py_join :: "string \<Rightarrow> string list \<Rightarrow> string" where
  "py_join sep [] = []"
| "py_join sep [x] = x"
| "py_join sep (x # y # ys) = x @ sep @ py_join sep (y # ys)"

text \<open>
  \<open>round(x, n)\<close>: to the nearest multiple of \<open>10^-n\<close>, a tie going to the even
  neighbour. Python rounds the exact value of the float; here the value is the exact
  rational, so the binary representation error of a float is not modelled.
\<close>

definition round_half_even :: "rat \<Rightarrow> int" where
  "round_half_even x =
     (let f = \<lfloor>x\<rfloor>; d = x - of_int f
      in if d < 1 / 2 then f else if 1 / 2 < d then f + 1 else if even f then f else f + 1)"

definition py_round :: "rat \<Rightarrow> nat \<Rightarrow> rat" where
  "py_round x n = of_int (round_half_even (x * 10 ^ n)) / 10 ^ n"

section \<open>Prompt cache planner: \<open>CacheStrategy\<close>\<close>

definition should_cache_system_prompt :: "int \<Rightarrow> bool" where
  "should_cache_system_prompt prompt_length =
     (let MIN_TOKENS_TO_CACHE = 1024 in prompt_length \<ge> MIN_TOKENS_TO_CACHE)"

definition should_cache_tools :: "int \<Rightarrow> bool" where
  "should_cache_tools num_tools = (num_tools > 3)"

definition should_cache_conversation_history :: "int \<Rightarrow> bool" where
  "should_cache_conversation_history num_turns = (num_turns > 2)"

section \<open>Token manager\<close>

text \<open>
  A ledger entry. The timestamp is the clock reading taken when the entry is built.
  Token counts are Python integers; prices and costs in USD are floats, modelled as
  rationals.
\<close>

record TokenUsage =
  input_tokens :: int
  output_tokens :: int
  model :: string
  timestamp :: string


definition calculate_cost :: "TokenUsage \<Rightarrow> rat \<Rightarrow> rat \<Rightarrow> rat" where
  "calculate_cost u input_cost_per_1k output_cost_per_1k =
     (let input_cost = (of_int (input_tokens u) / 1000) * input_cost_per_1k;
          output_cost = (of_int (output_tokens u) / 1000) * output_cost_per_1k
      in input_cost + output_cost)"

record pricing =
  price_input :: rat
  price_output :: rat

definition DEFAULT_INPUT_COST :: rat where
  "DEFAULT_INPUT_COST = 3 / 1000"

definition DEFAULT_OUTPUT_COST :: rat where
  "DEFAULT_OUTPUT_COST = 15 / 1000"

definition default_pricing :: pricing where
  "default_pricing = \<lparr>price_input = DEFAULT_INPUT_COST, price_output = DEFAULT_OUTPUT_COST\<rparr>"

definition model_pricing :: "string \<rightharpoonup> pricing" where
  "model_pricing = map_of
     [(''claude-sonnet-4-5'',
         \<lparr>price_input = DEFAULT_INPUT_COST, price_output = DEFAULT_OUTPUT_COST\<rparr>),
      (''claude-sonnet-3-5'', \<lparr>price_input = 3 / 1000, price_output = 15 / 1000\<rparr>),
      (''claude-haiku'', \<lparr>price_input = 25 / 100000, price_output = 125 / 100000\<rparr>)]"

text \<open>\<open>self.model_pricing.get(model, {default prices})\<close>.\<close>

definition pricing_for :: "string \<Rightarrow> pricing" where
  "pricing_for m = (case model_pricing m of None \<Rightarrow> default_pricing | Some p \<Rightarrow> p)"

text \<open>
  The manager's state. The two ledgers are \<open>defaultdict(list)\<close>s; the tokenizer is
  absent when its initialisation failed, and an encoder may itself raise.
\<close>

record TokenManager =
  daily_budget :: rat
  usage_by_agent :: "string \<rightharpoonup> TokenUsage list"
  usage_by_date :: "string \<rightharpoonup> TokenUsage list"
  tokenizer :: "(string \<Rightarrow> exn + nat) option"






text \<open>
  The dictionary \<open>get_daily_usage\<close> returns. Its last two keys exist only when the day
  has entries, hence the option fields.
\<close>

record daily_usage =
  du_date :: string
  du_total_tokens :: int
  du_input_tokens :: int
  du_output_tokens :: int
  du_total_cost_usd :: rat
  du_call_count :: nat
  du_budget_remaining_usd :: "rat option"
  du_budget_used_percentage :: "rat option"

text \<open>The cost loop of \<open>get_daily_usage\<close>, starting from \<open>0.0\<close>.\<close>

definition total_cost_of :: "TokenUsage list \<Rightarrow> rat" where
  "total_cost_of usages =
     foldl (\<lambda>total_cost usage.
              total_cost + calculate_cost usage (price_input (pricing_for (model usage)))
                                                (price_output (pricing_for (model usage))))
           0 usages"

text \<open>\<open>self.usage_by_date.get(date, [])\<close>.\<close>

definition usages_on :: "TokenManager \<Rightarrow> string \<Rightarrow> TokenUsage list" where
  "usages_on tm date = (case usage_by_date tm date of None \<Rightarrow> [] | Some us \<Rightarrow> us)"

text \<open>
  \<open>get_daily_usage(date)\<close>; \<open>today\<close> is the clock's date, used when no date is given.
  The percentage divides by the budget, which raises when the budget is zero.
\<close>

definition get_daily_usage :: "TokenManager \<Rightarrow> string option \<Rightarrow> string \<Rightarrow> exn + daily_usage" where
  "get_daily_usage tm date_arg today =
     (let date = (case date_arg of None \<Rightarrow> today | Some d \<Rightarrow> d);
          usages = usages_on tm date
      in if usages = [] then
           Inr \<lparr>du_date = date, du_total_tokens = 0, du_input_tokens = 0, du_output_tokens = 0,
                du_total_cost_usd = 0, du_call_count = 0,
                du_budget_remaining_usd = None, du_budget_used_percentage = None\<rparr>
         else
           let total_input = sum_list (map input_tokens usages);
               total_output = sum_list (map output_tokens usages);
               total_cost = total_cost_of usages
           in if daily_budget tm = 0 then Inl (ZeroDivisionError ''float division by zero'')
              else
                Inr \<lparr>du_date = date, du_total_tokens = total_input + total_output,
                     du_input_tokens = total_input, du_output_tokens = total_output,
                     du_total_cost_usd = py_round total_cost 2,
                     du_call_count = length usages,
                     du_budget_remaining_usd = Some (py_round (daily_budget tm - total_cost) 2),
                     du_budget_used_percentage =
                       Some (py_round ((total_cost / daily_budget tm) * 100) 1)\<rparr>)"

text \<open>\<open>usage[key]\<close> for one of the two optional keys.\<close>

definition subscript :: "'a option \<Rightarrow> string \<Rightarrow> exn + 'a" where
  "subscript field key = (case field of None \<Rightarrow> Inl (KeyError key) | Some v \<Rightarrow> Inr v)"

text \<open>
  \<open>check_budget_available\<close>. The two warnings only write to the log; the lookup of
  the percentage for the second one is still performed.
\<close>

definition check_budget_available :: "TokenManager \<Rightarrow> string \<Rightarrow> exn + bool" where
  "check_budget_available tm today =
     (case get_daily_usage tm None today of
        Inl e \<Rightarrow> Inl e
      | Inr usage \<Rightarrow>
          (case subscript (du_budget_remaining_usd usage) ''budget_remaining_usd'' of
             Inl e \<Rightarrow> Inl e
           | Inr remaining \<Rightarrow>
               if remaining < 0 then Inr False
               else
                 (case subscript (du_budget_used_percentage usage) ''budget_used_percentage'' of
                    Inl e \<Rightarrow> Inl e
                  | Inr percentage \<Rightarrow> Inr True)))"




subsection \<open>Example ledgers\<close>




section \<open>The agent run loop: \<open>AgentBase\<close>\<close>

text \<open>
  A model response: its content blocks, the stop reason and the reported token usage.
  A tool-use block carries its id, the tool's name and the input dictionary.
\<close>

datatype content_block =
    TextBlock string
  | ToolUseBlock string string pydict
  | OtherBlock string

record response =
  content :: "content_block list"
  stop_reason :: string
  usage_input_tokens :: int
  usage_output_tokens :: int

text \<open>
  The content of a tool result is the result dictionary under \<open>str\<close> (base agent) or
  under \<open>json.dumps\<close> (manager); the serialisation is kept symbolic.
\<close>

datatype serialized = Str pydict | JsonDumps pydict

record tool_result =
  tool_use_id :: string
  tr_content :: serialized

datatype message_content =
    UserText string
  | Blocks "content_block list"
  | ToolResults "tool_result list"

record message =
  role :: string
  msg_content :: message_content

record history_entry =
  h_role :: string
  h_content :: "content_block list"
  h_stop_reason :: string

text \<open>
  The state a run changes: the agent's conversation history and the sequence of
  requests sent to the model so far, one entry (the messages of the request) per call of
  \<open>client.messages.create\<close>, whether the call returned or raised.
\<close>

record agent_state =
  conversation_history :: "history_entry list"
  requests :: "message list list"

text \<open>
  What a run depends on: the agent's id; the model behind \<open>client.messages.create\<close>
  for the agent's fixed model, system prompt, tools and sampling parameters, which
  answers the messages or raises; the rendering of a context value inside the f-string,
  which may raise for an arbitrary object; the seconds the clock has advanced when the
  run completes.
\<close>

record agent_env =
  self_agent_id :: string
  client :: "message list \<Rightarrow> exn + response"
  render :: "pyval \<Rightarrow> exn + string"
  elapsed :: rat

definition NL :: string where
  "NL = [CHR 0x0A]"

text \<open>The loop of \<open>_build_user_message\<close> over \<open>context.items()\<close>.\<close>

fun add_context :: "(pyval \<Rightarrow> exn + string) \<Rightarrow> string \<Rightarrow> pydict \<Rightarrow> exn + string" where
  "add_context rnd message [] = Inr message"
| "add_context rnd message ((key, v) # rest) =
     (case rnd v of
        Inl e \<Rightarrow> Inl e
      | Inr shown \<Rightarrow> add_context rnd (message @ ''- **'' @ key @ ''**: '' @ shown @ NL) rest)"

definition build_user_message ::
  "(pyval \<Rightarrow> exn + string) \<Rightarrow> string \<Rightarrow> pydict option \<Rightarrow> exn + string" where
  "build_user_message rnd task context =
     (case context of
        None \<Rightarrow> Inr task
      | Some c \<Rightarrow>
          if c = [] then Inr task
          else add_context rnd (task @ NL @ NL @ ''**Additional Context:**'' @ NL) c)"

text \<open>\<open>_extract_result\<close>: the text blocks in order, joined by newlines.\<close>

fun text_parts :: "content_block list \<Rightarrow> string list" where
  "text_parts [] = []"
| "text_parts (TextBlock t # bs) = t # text_parts bs"
| "text_parts (b # bs) = text_parts bs"

definition extract_result :: "response \<Rightarrow> string" where
  "extract_result r = py_join NL (text_parts (content r))"

text \<open>The three dictionaries \<open>run\<close> can return.\<close>

definition success_result :: "agent_env \<Rightarrow> response \<Rightarrow> int \<Rightarrow> pydict" where
  "success_result env r iteration =
     [(''success'', PBool True),
      (''agent_id'', PStr (self_agent_id env)),
      (''result'', PStr (extract_result r)),
      (''iterations'', PInt iteration),
      (''elapsed_seconds'', PFloat (elapsed env)),
      (''usage'', PDict [(''input_tokens'', PInt (usage_input_tokens r)),
                         (''output_tokens'', PInt (usage_output_tokens r))])]"

definition max_iterations_result :: "agent_env \<Rightarrow> int \<Rightarrow> pydict" where
  "max_iterations_result env iteration =
     [(''success'', PBool False),
      (''error'', PStr ''Max iterations reached''),
      (''agent_id'', PStr (self_agent_id env)),
      (''iterations'', PInt iteration)]"

definition exception_result :: "agent_env \<Rightarrow> exn \<Rightarrow> pydict" where
  "exception_result env e =
     [(''success'', PBool False),
      (''error'', PStr (exn_msg e)),
      (''agent_id'', PStr (self_agent_id env))]"

text \<open>
  The \<open>while\<close> loop of \<open>run\<close>, inside the \<open>try\<close>: \<open>Inl\<close> is an exception on its way
  to the \<open>except\<close> clause, \<open>Inr\<close> a returned dictionary. \<open>handle\<close> is the agent's
  \<open>_handle_tool_use\<close>, which subclasses override.
\<close>

function run_loop ::
  "agent_env \<Rightarrow> (response \<Rightarrow> exn + tool_result list) \<Rightarrow> int \<Rightarrow> int \<Rightarrow> message list
     \<Rightarrow> agent_state \<Rightarrow> (exn + pydict) \<times> agent_state" where
  "run_loop env handle max_iterations iteration messages st =
     (if iteration < max_iterations then
        (let iteration' = iteration + 1;
             st1 = st\<lparr>requests := requests st @ [messages]\<rparr>
         in case client env messages of
              Inl e \<Rightarrow> (Inl e, st1)
            | Inr r \<Rightarrow>
                (let st2 = st1\<lparr>conversation_history := conversation_history st1 @
                                 [\<lparr>h_role = ''assistant'', h_content = content r,
                                   h_stop_reason = stop_reason r\<rparr>]\<rparr>
                 in if stop_reason r = ''end_turn'' then
                      (Inr (success_result env r iteration'), st2)
                    else if stop_reason r = ''tool_use'' then
                      (case handle r of
                         Inl e \<Rightarrow> (Inl e, st2)
                       | Inr tool_results \<Rightarrow>
                           run_loop env handle max_iterations iteration'
                             (messages @
                                [\<lparr>role = ''assistant'', msg_content = Blocks (content r)\<rparr>,
                                 \<lparr>role = ''user'', msg_content = ToolResults tool_results\<rparr>])
                             st2)
                    else (Inr (max_iterations_result env iteration'), st2)))
      else (Inr (max_iterations_result env iteration), st))"
  by pat_completeness auto
termination
  by (relation "measure (\<lambda>(env, handle, max_iterations, iteration, messages, st).
                  nat (max_iterations - iteration))") auto

text \<open>The body of the \<open>try\<close> block of \<open>run\<close>.\<close>

definition run_try ::
  "agent_env \<Rightarrow> (response \<Rightarrow> exn + tool_result list) \<Rightarrow> string \<Rightarrow> pydict option \<Rightarrow> int
     \<Rightarrow> agent_state \<Rightarrow> (exn + pydict) \<times> agent_state" where
  "run_try env handle task context max_iterations st =
     (case build_user_message (render env) task context of
        Inl e \<Rightarrow> (Inl e, st)
      | Inr text \<Rightarrow>
          run_loop env handle max_iterations 0
            [\<lparr>role = ''user'', msg_content = UserText text\<rparr>] st)"

text \<open>
  \<open>run\<close>: the \<open>try\<close> block under \<open>except Exception\<close>. The result type keeps the \<open>Inl\<close>
  summand for an exception that would leave \<open>run\<close>.
\<close>

definition run ::
  "agent_env \<Rightarrow> (response \<Rightarrow> exn + tool_result list) \<Rightarrow> string \<Rightarrow> pydict option \<Rightarrow> int
     \<Rightarrow> agent_state \<Rightarrow> (exn + pydict) \<times> agent_state" where
  "run env handle task context max_iterations st =
     (case run_try env handle task context max_iterations st of
        (Inl e, st') \<Rightarrow> (Inr (exception_result env e), st')
      | (Inr r, st') \<Rightarrow> (Inr r, st'))"

text \<open>The number of model calls made between two states.\<close>

definition model_calls :: "agent_state \<Rightarrow> agent_state \<Rightarrow> nat" where
  "model_calls st st' = length (requests st') - length (requests st)"

subsection \<open>The tool registry and the base agent's tool dispatch\<close>

text \<open>
  A registered tool is its \<open>execute(**kwargs)\<close>: it returns a result dictionary or
  raises (binding the keyword arguments happens outside the tool's own \<open>try\<close>).
\<close>

type_synonym tool = "pydict \<Rightarrow> exn + pydict"

type_synonym tool_registry = "string \<rightharpoonup> tool"

text \<open>
  \<open>execute_tool(self, name, **kwargs)\<close> called as \<open>execute_tool(tool_name, **tool_input)\<close>:
  an input with a key \<open>name\<close> or \<open>self\<close> collides with the positional parameters and
  the call raises \<open>TypeError\<close> before the body runs (Python's message also names the
  method and the argument).
\<close>

definition execute_tool :: "tool_registry \<Rightarrow> string \<Rightarrow> pydict \<Rightarrow> exn + pydict" where
  "execute_tool reg name kwargs =
     (if map_of kwargs ''name'' \<noteq> None \<or> map_of kwargs ''self'' \<noteq> None then
        Inl (TypeError ''execute_tool() got multiple values for argument'')
      else
        (case reg name of
           None \<Rightarrow>
             Inr [(''success'', PBool False),
                  (''error'', PStr (''Tool '' @ [CHR 0x27] @ name @ [CHR 0x27] @ '' not found''))]
         | Some tool \<Rightarrow> tool kwargs))"

fun handle_blocks :: "tool_registry \<Rightarrow> content_block list \<Rightarrow> exn + tool_result list" where
  "handle_blocks reg [] = Inr []"
| "handle_blocks reg (ToolUseBlock tid tool_name tool_input # bs) =
     (case execute_tool reg tool_name tool_input of
        Inl e \<Rightarrow> Inl e
      | Inr result \<Rightarrow>
          (case handle_blocks reg bs of
             Inl e \<Rightarrow> Inl e
           | Inr rest \<Rightarrow> Inr (\<lparr>tool_use_id = tid, tr_content = Str result\<rparr> # rest)))"
| "handle_blocks reg (b # bs) = handle_blocks reg bs"

definition handle_tool_use :: "tool_registry \<Rightarrow> response \<Rightarrow> exn + tool_result list" where
  "handle_tool_use reg r = handle_blocks reg (content r)"

section \<open>The manager's delegation: \<open>ManagerAgent\<close>\<close>

text \<open>
  The manager holds the registered specialists, the generic registry and the
  development flag of the settings. A registered specialist is an agent object; its
  \<open>run(task, context)\<close> is taken as an arbitrary callable that returns a dictionary or
  raises, which is what the \<open>except\<close> clause of \<open>_call_specialist_agent\<close> provides for.
\<close>

record manager_env =
  specialist_agents :: "string \<rightharpoonup> (pyval \<Rightarrow> pyval \<Rightarrow> exn + pydict)"
  registry :: tool_registry
  is_development :: bool

text \<open>
  \<open>_call_specialist_agent\<close>. Its first statement logs \<open>task[:100]\<close>, outside the
  \<open>try\<close>; the lookup and the call follow.
\<close>

definition call_specialist_agent ::
  "manager_env \<Rightarrow> string \<Rightarrow> pyval \<Rightarrow> pyval \<Rightarrow> exn + pydict" where
  "call_specialist_agent menv aid task context =
     (case slice100 task of
        Inl e \<Rightarrow> Inl e
      | Inr logged \<Rightarrow>
          (case specialist_agents menv aid of
             None \<Rightarrow>
               Inr [(''success'', PBool False),
                    (''error'', PStr (''Unknown specialist agent: '' @ aid))]
           | Some agent \<Rightarrow>
               (case agent task context of
                  Inr result \<Rightarrow> Inr result
                | Inl e \<Rightarrow>
                    Inr [(''success'', PBool False),
                         (''agent_id'', PStr aid),
                         (''error'', PStr (exn_msg e))])))"

definition request_human_approval :: "manager_env \<Rightarrow> pydict \<Rightarrow> pydict" where
  "request_human_approval menv approval_request =
     (let decision = dict_get approval_request ''decision'';
          rationale = dict_get approval_request ''rationale'';
          risk_level = dict_get_default approval_request ''risk_level'' (PStr ''medium'');
          auto_approve = is_development menv
      in if auto_approve then
           [(''approved'', PBool True),
            (''message'', PStr ''Auto-approved in development mode''),
            (''decision'', decision)]
         else
           [(''approved'', PBool False),
            (''message'', PStr ''Human approval required (not implemented yet)''),
            (''decision'', decision),
            (''action_required'', PStr ''Implement human approval workflow'')])"

text \<open>
  The branch of the manager's \<open>_handle_tool_use\<close> that computes the result of one
  tool-use block.
\<close>

definition manager_dispatch :: "manager_env \<Rightarrow> string \<Rightarrow> pydict \<Rightarrow> exn + pydict" where
  "manager_dispatch menv tool_name tool_input =
     (if startswith tool_name ''call_'' \<and> endswith tool_name ''_agent'' then
        (let aid = py_replace (py_replace tool_name ''call_'' []) ''_agent'' []
         in call_specialist_agent menv aid (dict_get tool_input ''task'')
              (dict_get tool_input ''context''))
      else if tool_name = ''request_human_approval'' then
        Inr (request_human_approval menv tool_input)
      else execute_tool (registry menv) tool_name tool_input)"

fun manager_handle_blocks :: "manager_env \<Rightarrow> content_block list \<Rightarrow> exn + tool_result list" where
  "manager_handle_blocks menv [] = Inr []"
| "manager_handle_blocks menv (ToolUseBlock tid tool_name tool_input # bs) =
     (case manager_dispatch menv tool_name tool_input of
        Inl e \<Rightarrow> Inl e
      | Inr result \<Rightarrow>
          (case manager_handle_blocks menv bs of
             Inl e \<Rightarrow> Inl e
           | Inr rest \<Rightarrow> Inr (\<lparr>tool_use_id = tid, tr_content = JsonDumps result\<rparr> # rest)))"
| "manager_handle_blocks menv (b # bs) = manager_handle_blocks menv bs"

definition manager_handle_tool_use :: "manager_env \<Rightarrow> response \<Rightarrow> exn + tool_result list" where
  "manager_handle_tool_use menv r = manager_handle_blocks menv (content r)"

section \<open>Example agents\<close>

definition st0 :: agent_state where
  "st0 = \<lparr>conversation_history = [], requests = []\<rparr>"

text \<open>Strings render as themselves; the example contexts hold nothing else.\<close>

definition render_str :: "pyval \<Rightarrow> exn + string" where
  "render_str v = (case v of PStr s \<Rightarrow> Inr s | _ \<Rightarrow> Inl (TypeError ''unsupported format string''))"

text \<open>An analyst whose model call fails with a transport error.\<close>

definition env_offline :: agent_env where
  "env_offline = \<lparr>self_agent_id = ''analyst'',
                   client = (\<lambda>messages. Inl (Exception ''Connection error'')),
                   render = render_str, elapsed = 0\<rparr>"

text \<open>An analyst whose model answers at once, with two text blocks.\<close>

definition two_texts :: response where
  "two_texts = \<lparr>content = [TextBlock ''Hello'', TextBlock ''World''],
                 stop_reason = ''end_turn'',
                 usage_input_tokens = 10, usage_output_tokens = 5\<rparr>"

definition env_two_texts :: agent_env where
  "env_two_texts = \<lparr>self_agent_id = ''analyst'', client = (\<lambda>messages. Inr two_texts),
                     render = render_str, elapsed = 2\<rparr>"








section \<open>Properties of the prompt cache planner\<close>

text \<open>
  C8: the system prompt is cached iff it has at least 1024 tokens, the tools iff there
  are more than 3 of them, the conversation history iff it has more than 2 turns; the
  boundary pairs 1023/1024, 3/4 and 2/3 flip the decision.
\<close>

theorem cache_thresholds:
  "should_cache_system_prompt n = (n \<ge> 1024) \<and>
   should_cache_tools k = (k > 3) \<and>
   should_cache_conversation_history t = (t > 2) \<and>
   \<not> should_cache_system_prompt 1023 \<and> should_cache_system_prompt 1024 \<and>
   \<not> should_cache_tools 3 \<and> should_cache_tools 4 \<and>
   \<not> should_cache_conversation_history 2 \<and> should_cache_conversation_history 3"
  by (simp add: should_cache_system_prompt_def should_cache_tools_def
      should_cache_conversation_history_def)

section \<open>Properties of the token manager\<close>

subsection \<open>Rounding\<close>









subsection \<open>Prices and estimates\<close>





subsection \<open>The ledger at the ceiling\<close>




subsection \<open>The budget check\<close>


text \<open>
  On a day without entries \<open>get_daily_usage\<close> returns the short dictionary, which has
  no \<open>budget_remaining_usd\<close> key: the check raises instead of answering.
\<close>

lemma check_budget_empty_ledger:
  assumes "usages_on tm today = []"
  shows "check_budget_available tm today = Inl (KeyError ''budget_remaining_usd'')"
  using assms
  by (simp add: check_budget_available_def get_daily_usage_def subscript_def Let_def)




subsection \<open>Admission of a call\<close>





subsection \<open>Recording usage\<close>






section \<open>Properties of the run loop\<close>

text \<open>
  The loop's defining equation is used one step at a time, through the lemmas below,
  one for each way an iteration can go.
\<close>

declare run_loop.simps [simp del]

lemma run_loop_done:
  "\<not> iteration < max_iterations \<Longrightarrow>
   run_loop env handle max_iterations iteration messages st
     = (Inr (max_iterations_result env iteration), st)"
  by (subst run_loop.simps) simp

lemma run_loop_client_raises:
  "iteration < max_iterations \<Longrightarrow> client env messages = Inl e \<Longrightarrow>
   run_loop env handle max_iterations iteration messages st
     = (Inl e, st\<lparr>requests := requests st @ [messages]\<rparr>)"
  by (subst run_loop.simps) simp

lemma run_loop_end_turn:
  "iteration < max_iterations \<Longrightarrow> client env messages = Inr r \<Longrightarrow>
   stop_reason r = ''end_turn'' \<Longrightarrow>
   run_loop env handle max_iterations iteration messages st
     = (Inr (success_result env r (iteration + 1)),
        st\<lparr>requests := requests st @ [messages],
           conversation_history := conversation_history st @
             [\<lparr>h_role = ''assistant'', h_content = content r, h_stop_reason = stop_reason r\<rparr>]\<rparr>)"
  by (subst run_loop.simps) (simp add: Let_def)

lemma run_loop_tool_raises:
  "iteration < max_iterations \<Longrightarrow> client env messages = Inr r \<Longrightarrow>
   stop_reason r = ''tool_use'' \<Longrightarrow> handle r = Inl e \<Longrightarrow>
   run_loop env handle max_iterations iteration messages st
     = (Inl e,
        st\<lparr>requests := requests st @ [messages],
           conversation_history := conversation_history st @
             [\<lparr>h_role = ''assistant'', h_content = content r, h_stop_reason = stop_reason r\<rparr>]\<rparr>)"
  by (subst run_loop.simps) (simp add: Let_def)

lemma run_loop_tool_use:
  "iteration < max_iterations \<Longrightarrow> client env messages = Inr r \<Longrightarrow>
   stop_reason r = ''tool_use'' \<Longrightarrow> handle r = Inr tool_results \<Longrightarrow>
   run_loop env handle max_iterations iteration messages st
     = run_loop env handle max_iterations (iteration + 1)
         (messages @ [\<lparr>role = ''assistant'', msg_content = Blocks (content r)\<rparr>,
                      \<lparr>role = ''user'', msg_content = ToolResults tool_results\<rparr>])
         (st\<lparr>requests := requests st @ [messages],
            conversation_history := conversation_history st @
              [\<lparr>h_role = ''assistant'', h_content = content r, h_stop_reason = stop_reason r\<rparr>]\<rparr>)"
  by (subst run_loop.simps) (simp add: Let_def)

lemma run_loop_unexpected:
  "iteration < max_iterations \<Longrightarrow> client env messages = Inr r \<Longrightarrow>
   stop_reason r \<noteq> ''end_turn'' \<Longrightarrow> stop_reason r \<noteq> ''tool_use'' \<Longrightarrow>
   run_loop env handle max_iterations iteration messages st
     = (Inr (max_iterations_result env (iteration + 1)),
        st\<lparr>requests := requests st @ [messages],
           conversation_history := conversation_history st @
             [\<lparr>h_role = ''assistant'', h_content = content r, h_stop_reason = stop_reason r\<rparr>]\<rparr>)"
  by (subst run_loop.simps) (simp add: Let_def)

lemma iterations_success [simp]:
  "map_of (success_result env r n) ''iterations'' = Some (PInt n)"
  by (simp add: success_result_def)

lemma iterations_max [simp]:
  "map_of (max_iterations_result env n) ''iterations'' = Some (PInt n)"
  by (simp add: max_iterations_result_def)

lemma iterations_exception [simp]:
  "map_of (exception_result env e) ''iterations'' = None"
  by (simp add: exception_result_def)

text \<open>
  Every iteration sends one request, and a dictionary returned from inside the loop
  carries the number of iterations made so far.
\<close>

lemma run_loop_counts:
  "\<exists>new. requests (snd (run_loop env handle max_iterations iteration messages st))
            = requests st @ new \<and>
         (\<forall>r. fst (run_loop env handle max_iterations iteration messages st) = Inr r \<longrightarrow>
              map_of r ''iterations'' = Some (PInt (iteration + int (length new))))"
proof (induction env handle max_iterations iteration messages st rule: run_loop.induct)
  case (1 env handle max_iterations iteration messages st)
  show ?case
  proof (cases "iteration < max_iterations")
    case False
    then show ?thesis by (simp add: run_loop_done)
  next
    case lt: True
    show ?thesis
    proof (cases "client env messages")
      case (Inl e)
      with lt show ?thesis by (simp add: run_loop_client_raises)
    next
      case (Inr r)
      consider (fin) "stop_reason r = ''end_turn''"
        | (tool) "stop_reason r \<noteq> ''end_turn''" "stop_reason r = ''tool_use''"
        | (other) "stop_reason r \<noteq> ''end_turn''" "stop_reason r \<noteq> ''tool_use''"
        by blast
      then show ?thesis
      proof cases
        case fin
        with lt Inr show ?thesis by (simp add: run_loop_end_turn)
      next
        case other
        with lt Inr show ?thesis by (simp add: run_loop_unexpected)
      next
        case tool
        show ?thesis
        proof (cases "handle r")
          case (Inl e)
          with lt Inr tool show ?thesis by (simp add: run_loop_tool_raises)
        next
          case (Inr tool_results)
          let ?st2 = "st\<lparr>requests := requests st @ [messages],
            conversation_history := conversation_history st @
              [\<lparr>h_role = ''assistant'', h_content = content r, h_stop_reason = stop_reason r\<rparr>]\<rparr>"
          let ?msgs = "messages @ [\<lparr>role = ''assistant'', msg_content = Blocks (content r)\<rparr>,
                      \<lparr>role = ''user'', msg_content = ToolResults tool_results\<rparr>]"
          have step: "run_loop env handle max_iterations iteration messages st
              = run_loop env handle max_iterations (iteration + 1) ?msgs ?st2"
            using lt \<open>client env messages = Inr r\<close> tool Inr by (simp add: run_loop_tool_use)
          have IH: "\<exists>new. requests (snd (run_loop env handle max_iterations (iteration + 1) ?msgs ?st2))
                      = requests ?st2 @ new \<and>
               (\<forall>r. fst (run_loop env handle max_iterations (iteration + 1) ?msgs ?st2) = Inr r \<longrightarrow>
                  map_of r ''iterations'' = Some (PInt (iteration + 1 + int (length new))))"
            using "1.IH" [OF lt refl refl \<open>client env messages = Inr r\<close> refl tool Inr]
            by simp
          then obtain new where
            n1: "requests (snd (run_loop env handle max_iterations (iteration + 1) ?msgs ?st2))
                   = requests ?st2 @ new"
            and n2: "\<forall>r. fst (run_loop env handle max_iterations (iteration + 1) ?msgs ?st2) = Inr r \<longrightarrow>
                  map_of r ''iterations'' = Some (PInt (iteration + 1 + int (length new)))"
            by blast
          show ?thesis
            unfolding step
            by (rule exI [of _ "messages # new"]) (use n1 n2 in simp)
        qed
      qed
    qed
  qed
qed


subsection \<open>The top-level handler\<close>

lemma run_Inr:
  "run_try env handle task context max_iterations st = (Inr r, st') \<Longrightarrow>
   run env handle task context max_iterations st = (Inr r, st')"
  by (simp add: run_def)

lemma run_Inl:
  "run_try env handle task context max_iterations st = (Inl e, st') \<Longrightarrow>
   run env handle task context max_iterations st = (Inr (exception_result env e), st')"
  by (simp add: run_def)

lemma build_no_context [simp]: "build_user_message rnd task None = Inr task"
  by (simp add: build_user_message_def)


lemma run_try_offline:
  "run_try env_offline handle ''Analyze the market'' None 10 st0
     = (Inl (Exception ''Connection error''),
        \<lparr>conversation_history = [],
         requests = [[\<lparr>role = ''user'', msg_content = UserText ''Analyze the market''\<rparr>]]\<rparr>)"
  by (simp add: run_try_def run_loop_client_raises env_offline_def st0_def)

text \<open>
  C2: for every task string, context mapping and \<open>max_iterations\<close>, \<open>run\<close> returns a
  dictionary and never lets an exception out: whenever the \<open>try\<close> block ends in an
  exception, raised while building the message, calling the model or dispatching tools,
  \<open>run\<close> returns the failure dictionary with \<open>success = False\<close> and the exception's
  message.
\<close>

theorem run_never_raises:
  "(\<exists>r st'. run env handle task context max_iterations st = (Inr r, st')) \<and>
   (\<forall>e st'. run_try env handle task context max_iterations st = (Inl e, st') \<longrightarrow>
      run env handle task context max_iterations st
        = (Inr [(''success'', PBool False),
                (''error'', PStr (exn_msg e)),
                (''agent_id'', PStr (self_agent_id env))], st'))"
proof
  show "\<exists>r st'. run env handle task context max_iterations st = (Inr r, st')"
  proof (cases "run_try env handle task context max_iterations st")
    case (Pair res st')
    then show ?thesis by (cases res) (auto dest: run_Inl run_Inr)
  qed
next
  show "\<forall>e st'. run_try env handle task context max_iterations st = (Inl e, st') \<longrightarrow>
      run env handle task context max_iterations st
        = (Inr [(''success'', PBool False),
                (''error'', PStr (exn_msg e)),
                (''agent_id'', PStr (self_agent_id env))], st')"
    by (auto dest: run_Inl simp: exception_result_def)
qed

theorem run_never_raises_witness:
  "run_try env_offline (handle_tool_use Map.empty) ''Analyze the market'' None 10 st0
     = (Inl (Exception ''Connection error''),
        \<lparr>conversation_history = [],
         requests = [[\<lparr>role = ''user'', msg_content = UserText ''Analyze the market''\<rparr>]]\<rparr>) \<and>
   run env_offline (handle_tool_use Map.empty) ''Analyze the market'' None 10 st0
     = (Inr [(''success'', PBool False),
             (''error'', PStr ''Connection error''),
             (''agent_id'', PStr ''analyst'')],
        \<lparr>conversation_history = [],
         requests = [[\<lparr>role = ''user'', msg_content = UserText ''Analyze the market''\<rparr>]]\<rparr>)"
proof -
  note t = run_never_raises [of env_offline "handle_tool_use Map.empty" "''Analyze the market''"
      None 10 st0, THEN conjunct2, THEN spec, THEN spec, THEN mp, OF run_try_offline]
  have "self_agent_id env_offline = ''analyst''" by (simp add: env_offline_def)
  with t run_try_offline show ?thesis by simp
qed

subsection \<open>The iteration count\<close>

text \<open>
  C9 (as amended): a dictionary that \<open>run\<close> returns from inside the loop (success,
  exhausted iterations, unexpected stop reason) has \<open>iterations\<close> equal to the number of
  model calls made during the run; the dictionary built by the exception handler has no
  \<open>iterations\<close> key at all.
\<close>

theorem run_iterations_count:
  "(\<forall>r st'. run_try env handle task context max_iterations st = (Inr r, st') \<longrightarrow>
      run env handle task context max_iterations st = (Inr r, st') \<and>
      map_of r ''iterations'' = Some (PInt (int (model_calls st st')))) \<and>
   (\<forall>e st'. run_try env handle task context max_iterations st = (Inl e, st') \<longrightarrow>
      (\<exists>r. run env handle task context max_iterations st = (Inr r, st') \<and>
           map_of r ''iterations'' = None))"
proof (intro conjI allI impI)
  fix r st'
  assume a: "run_try env handle task context max_iterations st = (Inr r, st')"
  then show "run env handle task context max_iterations st = (Inr r, st')" by (rule run_Inr)
  from a obtain msg where b: "build_user_message (render env) task context = Inr msg"
    and l: "run_loop env handle max_iterations 0
              [\<lparr>role = ''user'', msg_content = UserText msg\<rparr>] st = (Inr r, st')"
    by (auto simp: run_try_def split: sum.splits)
  from run_loop_counts [of env handle max_iterations 0
      "[\<lparr>role = ''user'', msg_content = UserText msg\<rparr>]" st] l
  obtain new where "requests st' = requests st @ new"
    "map_of r ''iterations'' = Some (PInt (0 + int (length new)))"
    by auto
  then show "map_of r ''iterations'' = Some (PInt (int (model_calls st st')))"
    by (simp add: model_calls_def)
next
  fix e st'
  assume "run_try env handle task context max_iterations st = (Inl e, st')"
  then have "run env handle task context max_iterations st = (Inr (exception_result env e), st')"
    by (rule run_Inl)
  then show "\<exists>r. run env handle task context max_iterations st = (Inr r, st') \<and>
           map_of r ''iterations'' = None"
    by simp
qed

theorem run_iterations_count_witness:
  "run env_two_texts (handle_tool_use Map.empty) ''Analyze the market'' None 10 st0
     = (Inr (success_result env_two_texts two_texts 1),
        \<lparr>conversation_history =
           [\<lparr>h_role = ''assistant'', h_content = content two_texts,
             h_stop_reason = stop_reason two_texts\<rparr>],
         requests = [[\<lparr>role = ''user'', msg_content = UserText ''Analyze the market''\<rparr>]]\<rparr>) \<and>
   map_of (success_result env_two_texts two_texts 1) ''iterations'' = Some (PInt 1) \<and>
   (\<exists>r. run env_offline (handle_tool_use Map.empty) ''Analyze the market'' None 10 st0
           = (Inr r, \<lparr>conversation_history = [],
                requests = [[\<lparr>role = ''user'', msg_content = UserText ''Analyze the market''\<rparr>]]\<rparr>) \<and>
         map_of r ''iterations'' = None)"
proof -
  let ?st1 = "\<lparr>conversation_history =
           [\<lparr>h_role = ''assistant'', h_content = content two_texts,
             h_stop_reason = stop_reason two_texts\<rparr>],
         requests = [[\<lparr>role = ''user'', msg_content = UserText ''Analyze the market''\<rparr>]]\<rparr>"
  have sr: "stop_reason two_texts = ''end_turn''" by (simp add: two_texts_def)
  have cl: "\<And>m. client env_two_texts m = Inr two_texts" by (simp add: env_two_texts_def)
  have a: "run_try env_two_texts (handle_tool_use Map.empty) ''Analyze the market'' None 10 st0
     = (Inr (success_result env_two_texts two_texts 1), ?st1)"
    by (simp add: run_try_def run_loop_end_turn [OF _ cl sr] st0_def)
  have m: "model_calls st0 ?st1 = 1" by (simp add: model_calls_def st0_def)
  note t1 = run_iterations_count [of env_two_texts "handle_tool_use Map.empty"
      "''Analyze the market''" None 10 st0, THEN conjunct1, THEN spec, THEN spec, THEN mp, OF a]
  note t2 = run_iterations_count [of env_offline "handle_tool_use Map.empty"
      "''Analyze the market''" None 10 st0, THEN conjunct2, THEN spec, THEN spec, THEN mp,
      OF run_try_offline]
  from t1 m t2 show ?thesis by simp
qed

text \<open>
  The claim as stated covers the exception handler too. When the first model call
  raises, one call has been made and the returned dictionary has no \<open>iterations\<close>.
\<close>

theorem run_exception_no_iterations_counterexample:
  "run env_offline (handle_tool_use Map.empty) ''Analyze the market'' None 10 st0
     = (Inr [(''success'', PBool False),
             (''error'', PStr ''Connection error''),
             (''agent_id'', PStr ''analyst'')],
        \<lparr>conversation_history = [],
         requests = [[\<lparr>role = ''user'', msg_content = UserText ''Analyze the market''\<rparr>]]\<rparr>) \<and>
   map_of [(''success'', PBool False),
           (''error'', PStr ''Connection error''),
           (''agent_id'', PStr ''analyst'')] ''iterations'' = None \<and>
   model_calls st0
     \<lparr>conversation_history = [],
      requests = [[\<lparr>role = ''user'', msg_content = UserText ''Analyze the market''\<rparr>]]\<rparr> = 1"
proof -
  have "run env_offline (handle_tool_use Map.empty) ''Analyze the market'' None 10 st0
     = (Inr (exception_result env_offline (Exception ''Connection error'')),
        \<lparr>conversation_history = [],
         requests = [[\<lparr>role = ''user'', msg_content = UserText ''Analyze the market''\<rparr>]]\<rparr>)"
    by (rule run_Inl [OF run_try_offline])
  then show ?thesis
    by (simp add: exception_result_def env_offline_def model_calls_def st0_def)
qed

subsection \<open>Exhausting the iterations\<close>







subsection \<open>Finishing on the first response\<close>

text \<open>
  C5 (as amended): when the first model response has the stop reason \<open>end_turn\<close>,
  \<open>run\<close> returns success with \<open>iterations = 1\<close>, after one model call, and \<open>result\<close> is
  the text blocks of that response, in order, joined by a newline between consecutive
  blocks.
\<close>

theorem run_end_turn_first:
  assumes "build_user_message (render env) task context = Inr msg"
    and "client env [\<lparr>role = ''user'', msg_content = UserText msg\<rparr>] = Inr r"
    and "stop_reason r = ''end_turn''"
    and "1 \<le> max_iterations"
  shows "fst (run env handle task context max_iterations st)
           = Inr [(''success'', PBool True),
                  (''agent_id'', PStr (self_agent_id env)),
                  (''result'', PStr (py_join [CHR 0x0A] (text_parts (content r)))),
                  (''iterations'', PInt 1),
                  (''elapsed_seconds'', PFloat (elapsed env)),
                  (''usage'', PDict [(''input_tokens'', PInt (usage_input_tokens r)),
                                     (''output_tokens'', PInt (usage_output_tokens r))])] \<and>
         model_calls st (snd (run env handle task context max_iterations st)) = 1"
proof -
  have lt: "0 < max_iterations" using assms(4) by simp
  note l = run_loop_end_turn [OF lt assms(2) assms(3), of handle st]
  have "run_try env handle task context max_iterations st
          = (Inr (success_result env r (0 + 1)),
             st\<lparr>requests := requests st @ [[\<lparr>role = ''user'', msg_content = UserText msg\<rparr>]],
           conversation_history := conversation_history st @
             [\<lparr>h_role = ''assistant'', h_content = content r, h_stop_reason = stop_reason r\<rparr>]\<rparr>)"
    using assms(1) l by (simp add: run_try_def)
  from run_Inr [OF this] show ?thesis
    by (simp add: success_result_def extract_result_def NL_def model_calls_def)
qed

theorem run_end_turn_first_witness:
  "build_user_message (render env_two_texts) ''Analyze the market'' None
     = Inr ''Analyze the market'' \<and>
   client env_two_texts [\<lparr>role = ''user'', msg_content = UserText ''Analyze the market''\<rparr>]
     = Inr two_texts \<and>
   stop_reason two_texts = ''end_turn'' \<and> (1::int) \<le> 10 \<and>
   fst (run env_two_texts (handle_tool_use Map.empty) ''Analyze the market'' None 10 st0)
     = Inr [(''success'', PBool True),
            (''agent_id'', PStr ''analyst''),
            (''result'', PStr (''Hello'' @ [CHR 0x0A] @ ''World'')),
            (''iterations'', PInt 1),
            (''elapsed_seconds'', PFloat 2),
            (''usage'', PDict [(''input_tokens'', PInt 10), (''output_tokens'', PInt 5)])] \<and>
   model_calls st0 (snd (run env_two_texts (handle_tool_use Map.empty) ''Analyze the market''
                           None 10 st0)) = 1"
proof -
  have a: "build_user_message (render env_two_texts) ''Analyze the market'' None
     = Inr ''Analyze the market''" by simp
  have b: "client env_two_texts [\<lparr>role = ''user'', msg_content = UserText ''Analyze the market''\<rparr>]
     = Inr two_texts" by (simp add: env_two_texts_def)
  have c: "stop_reason two_texts = ''end_turn''" by (simp add: two_texts_def)
  have d: "(1::int) \<le> 10" by simp
  have e: "self_agent_id env_two_texts = ''analyst''" "elapsed env_two_texts = 2"
    "content two_texts = [TextBlock ''Hello'', TextBlock ''World'']"
    "usage_input_tokens two_texts = 10" "usage_output_tokens two_texts = 5"
    by (simp_all add: env_two_texts_def two_texts_def)
  show ?thesis
    using a b c d run_end_turn_first [OF a b c d, of "handle_tool_use Map.empty" st0]
    by (simp add: e)
qed

text \<open>
  The claim as stated has the plain concatenation. For the two text blocks \<open>Hello\<close>
  and \<open>World\<close> the result has a newline between them.
\<close>

theorem run_result_joined_counterexample:
  "text_parts (content two_texts) = [''Hello'', ''World''] \<and>
   map_of (case fst (run env_two_texts (handle_tool_use Map.empty) ''Analyze the market''
                       None 10 st0) of Inr d \<Rightarrow> d | Inl e \<Rightarrow> [])
          ''result''
     = Some (PStr (''Hello'' @ [CHR 0x0A] @ ''World'')) \<and>
   ''Hello'' @ [CHR 0x0A] @ ''World'' \<noteq> concat [''Hello'', ''World'']"
proof -
  have sr: "stop_reason two_texts = ''end_turn''" by (simp add: two_texts_def)
  have cl: "\<And>m. client env_two_texts m = Inr two_texts" by (simp add: env_two_texts_def)
  have "run_try env_two_texts (handle_tool_use Map.empty) ''Analyze the market'' None 10 st0
     = (Inr (success_result env_two_texts two_texts (0 + 1)),
        st0\<lparr>requests := requests st0 @ [[\<lparr>role = ''user'', msg_content = UserText ''Analyze the market''\<rparr>]],
           conversation_history := conversation_history st0 @
             [\<lparr>h_role = ''assistant'', h_content = content two_texts,
               h_stop_reason = stop_reason two_texts\<rparr>]\<rparr>)"
    by (simp add: run_try_def run_loop_end_turn [OF _ cl sr])
  from run_Inr [OF this] show ?thesis
    by (simp add: success_result_def extract_result_def NL_def) (simp add: two_texts_def)
qed

section \<open>Properties of the manager's dispatch\<close>


lemma foo_name:
  "startswith ''call_foo_agent'' ''call_''"
  "endswith ''call_foo_agent'' ''_agent''"
  "py_replace (py_replace ''call_foo_agent'' ''call_'' []) ''_agent'' [] = ''foo''"
  by (simp_all add: startswith_def endswith_def py_replace_def)

lemma manager_dispatch_specialist:
  assumes "startswith tool_name ''call_''" and "endswith tool_name ''_agent''"
  shows "manager_dispatch menv tool_name tool_input
           = call_specialist_agent menv
               (py_replace (py_replace tool_name ''call_'' []) ''_agent'' [])
               (dict_get tool_input ''task'') (dict_get tool_input ''context'')"
  using assms by (simp add: manager_dispatch_def Let_def)

text \<open>
  A name of the form \<open>call_..._agent\<close> never reaches the generic registry: the result
  of the dispatch does not depend on what is registered.
\<close>

lemma manager_dispatch_ignores_registry:
  assumes "startswith tool_name ''call_''" and "endswith tool_name ''_agent''"
  shows "manager_dispatch (menv\<lparr>registry := reg\<rparr>) tool_name tool_input
           = manager_dispatch menv tool_name tool_input"
  using assms
  by (simp add: manager_dispatch_def call_specialist_agent_def Let_def
      cong: sum.case_cong option.case_cong)

text \<open>
  For an identifier that is not registered, and a task that can be sliced for the log
  line, the result is the failure dictionary that names the identifier; it has no
  \<open>agent_id\<close> key.
\<close>

lemma manager_dispatch_unknown_specialist:
  assumes "startswith tool_name ''call_''" and "endswith tool_name ''_agent''"
    and "aid = py_replace (py_replace tool_name ''call_'' []) ''_agent'' []"
    and "specialist_agents menv aid = None"
    and "slice100 (dict_get tool_input ''task'') = Inr logged"
  shows "manager_dispatch menv tool_name tool_input
           = Inr [(''success'', PBool False),
                  (''error'', PStr (''Unknown specialist agent: '' @ aid))]"
  using assms by (simp add: manager_dispatch_def call_specialist_agent_def Let_def)

text \<open>
  C10: the dispatch of a \<open>call_..._agent\<close> invocation with an unknown specialist is
  meant to return that failure dictionary. At the invocation \<open>call_foo_agent\<close> with
  the empty input the task is \<open>None\<close>, the log line \<open>task[:100]\<close> raises \<open>TypeError\<close>
  before the lookup, and the dispatch raises instead of returning.
\<close>

theorem manager_dispatch_missing_task:
  "manager_dispatch menv ''call_foo_agent'' []
     = Inl (TypeError ''object is not subscriptable'') \<and>
   manager_handle_tool_use menv
     \<lparr>content = [ToolUseBlock ''toolu_1'' ''call_foo_agent'' []], stop_reason = ''tool_use'',
      usage_input_tokens = 10, usage_output_tokens = 5\<rparr>
     = Inl (TypeError ''object is not subscriptable'')"
proof -
  have "manager_dispatch menv ''call_foo_agent'' []
     = Inl (TypeError ''object is not subscriptable'')"
    by (simp add: manager_dispatch_specialist foo_name call_specialist_agent_def dict_get_def)
  then show ?thesis by (simp add: manager_handle_tool_use_def)
qed

subsection \<open>A specialist that raises\<close>








end
